theory Spec2Isabelle
  imports Main "HOL-Library.AList" "HOL-Library.Multiset" "HOL-Library.Product_Lexorder"
    "HOL-Library.List_Lexorder" "HOL-Library.Char_ord"
begin

section \<open>Data model of storage_manager.py\<close>

text \<open>
  A date is a Python \<^verbatim>\<open>datetime.date\<close>: its year, its month and its day. Python
  compares dates by year, then month, then day: the lexicographic order of the triple.
\<close>

type_synonym date = "nat \<times> nat \<times> nat"

text \<open>
  The triples that are dates: \<^verbatim>\<open>MINYEAR\<close> is 1 and \<^verbatim>\<open>MAXYEAR\<close> is 9999, a month is
  1 to 12 and a day 1 to 31 (Python also refuses the days a month does not have).
\<close>

definition valid_date :: "date \<Rightarrow> bool" where
  "valid_date d =
     (case d of (y, m, dd) \<Rightarrow>
        1 \<le> y \<and> y \<le> 9999 \<and> 1 \<le> m \<and> m \<le> 12 \<and> 1 \<le> dd \<and> dd \<le> 31)"

text \<open>
  An instant read from a clock (\<^verbatim>\<open>datetime.now()\<close>, \<^verbatim>\<open>datetime.today()\<close>, the
  \<^verbatim>\<open>'now'\<close> of SQLite) or given upstream, in seconds.
\<close>

type_synonym timestamp = nat

text \<open>
  A \<^verbatim>\<open>datetime.datetime\<close> built from a date: the date and the second of the day.
  Python compares the date first.
\<close>

type_synonym pydatetime = "date \<times> nat"

text \<open>\<^verbatim>\<open>datetime.datetime.combine(d, datetime.time())\<close>: midnight of the day \<open>d\<close>.\<close>

definition combine :: "date \<Rightarrow> pydatetime" where
  "combine d = (d, 0)"

text \<open>
  Dates as text. \<^verbatim>\<open>isoformat()\<close> writes \<^verbatim>\<open>YYYY-MM-DD\<close> with the year padded to
  four digits. \<^verbatim>\<open>strftime('%Y-%m-%d')\<close> pads month and day; the C library's
  \<^verbatim>\<open>%Y\<close> (glibc) writes the year with no padding, so a year before 1000 has fewer
  than four digits. \<open>pad2\<close> and \<open>pad4\<close> write the numbers a date holds, below 100
  and below 10000. Strings are ordered as SQLite orders TEXT values: byte by byte, a proper
  prefix first.
\<close>

definition digit :: "nat \<Rightarrow> char" where
  "digit n = char_of (48 + n)"

definition pad2 :: "nat \<Rightarrow> string" where
  "pad2 n = [digit (n div 10), digit (n mod 10)]"

definition pad4 :: "nat \<Rightarrow> string" where
  "pad4 n = pad2 (n div 100) @ pad2 (n mod 100)"

definition year_text :: "nat \<Rightarrow> string" where
  "year_text y =
     (if y < 10 then [digit y]
      else if y < 100 then pad2 y
      else if y < 1000 then digit (y div 100) # pad2 (y mod 100)
      else pad4 y)"

definition isoformat :: "date \<Rightarrow> string" where
  "isoformat d = (case d of (y, m, dd) \<Rightarrow> pad4 y @ ''-'' @ pad2 m @ ''-'' @ pad2 dd)"

definition strftime_ymd :: "date \<Rightarrow> string" where
  "strftime_ymd d = (case d of (y, m, dd) \<Rightarrow> year_text y @ ''-'' @ pad2 m @ ''-'' @ pad2 dd)"

text \<open>The exceptions the module can raise in the code paths modelled here.\<close>

datatype error = NameError | IndexError | AttributeError | TypeError | WriteError

text \<open>
  Values held in the \<^verbatim>\<open>plaid2text\<close> metadata dictionary. A Python dictionary keeps its
  keys in insertion order and \<^verbatim>\<open>d[k] = v\<close> replaces in place or appends:
  that is \<open>AList.update\<close> on an association list.
\<close>

datatype mvalue = MNone | MBool bool | MStr string | MList "string list" | MTime timestamp

type_synonym metadata = "(string \<times> mvalue) list"

text \<open>
  The fields of a transaction. \<open>'d\<close> is the representation of \<^verbatim>\<open>date\<close> and
  \<open>'a\<close> that of \<^verbatim>\<open>authorized_date\<close>: the upstream object holds a date and an
  optional date, a stored document holds datetimes, the JSON text holds ISO dates.
  \<^verbatim>\<open>amount\<close> is carried unchanged by every operation; it is modelled in hundredths.
\<close>

record ('d, 'a) txn =
  account_id :: string
  amount :: int
  iso_currency_code :: "string option"
  category :: "string list option"
  category_id :: "string option"
  date :: 'd
  name :: string
  pending :: bool
  pending_transaction_id :: "string option"
  account_owner :: "string option"
  transaction_id :: string
  authorized_date :: 'a
  datetime :: "timestamp option"
  payment_channel :: string

text \<open>A transaction together with the key \<^verbatim>\<open>plaid2text\<close> (\<open>None\<close>: no such key, or null).\<close>

record ('d, 'a) txn_meta = "('d, 'a) txn" +
  plaid2text :: "metadata option"

text \<open>The upstream transaction object handed to \<^verbatim>\<open>save_transactions\<close>.\<close>

type_synonym transaction = "(date, date option) txn_meta"

text \<open>
  The module constant \<^verbatim>\<open>TEXT_DOC\<close>. Its \<^verbatim>\<open>date_downloaded\<close> is
  \<^verbatim>\<open>datetime.datetime.today()\<close> evaluated when the module is loaded; \<open>loaded\<close> is
  that instant.
\<close>

definition TEXT_DOC :: "timestamp \<Rightarrow> (string \<times> metadata) list" where
  "TEXT_DOC loaded =
     [(''plaid2text'',
        [(''tags'', MList []),
         (''payee'', MStr ''''),
         (''posting_account'', MStr ''''),
         (''associated_account'', MStr ''''),
         (''date_downloaded'', MTime loaded),
         (''date_last_pulled'', MStr ''''),
         (''pulled_to_file'', MBool False)])]"

section \<open>MongoDBStorage\<close>

text \<open>
  A document of the account's collection: \<^verbatim>\<open>_id\<close>, the transaction's fields and the
  \<^verbatim>\<open>plaid2text\<close> sub-document. The collection is the list of its documents in natural
  order.
\<close>

record mongo_doc = "(pydatetime, pydatetime option) txn_meta" +
  doc_id :: string

type_synonym mongo_store = "mongo_doc list"

text \<open>
  \<^verbatim>\<open>$set: t\<close> on an existing document: every key of \<^verbatim>\<open>t.to_dict()\<close> is written,
  with \<^verbatim>\<open>date\<close> at midnight and \<^verbatim>\<open>authorized_date\<close> at midnight when it is
  a date (the \<^verbatim>\<open>except: pass\<close> leaves a null as it is). \<^verbatim>\<open>_id\<close> and
  \<^verbatim>\<open>plaid2text\<close> are not keys of \<^verbatim>\<open>t\<close> and stay.
\<close>

definition mongo_set :: "transaction \<Rightarrow> mongo_doc \<Rightarrow> mongo_doc" where
  "mongo_set t d =
     \<lparr>account_id = account_id t, amount = amount t,
      iso_currency_code = iso_currency_code t, category = category t,
      category_id = category_id t, date = combine (date t), name = name t,
      pending = pending t, pending_transaction_id = pending_transaction_id t,
      account_owner = account_owner t, transaction_id = transaction_id t,
      authorized_date = map_option combine (authorized_date t),
      datetime = datetime t, payment_channel = payment_channel t,
      plaid2text = plaid2text d, doc_id = doc_id d\<rparr>"

text \<open>The document an upsert inserts: the filter's \<^verbatim>\<open>_id\<close>, \<^verbatim>\<open>$set\<close> and \<^verbatim>\<open>$setOnInsert\<close>.\<close>

definition mongo_insert :: "timestamp \<Rightarrow> transaction \<Rightarrow> mongo_doc" where
  "mongo_insert loaded t =
     \<lparr>account_id = account_id t, amount = amount t,
      iso_currency_code = iso_currency_code t, category = category t,
      category_id = category_id t, date = combine (date t), name = name t,
      pending = pending t, pending_transaction_id = pending_transaction_id t,
      account_owner = account_owner t, transaction_id = transaction_id t,
      authorized_date = map_option combine (authorized_date t),
      datetime = datetime t, payment_channel = payment_channel t,
      plaid2text = map_of (TEXT_DOC loaded) ''plaid2text'',
      doc_id = transaction_id t\<rparr>"

text \<open>\<^verbatim>\<open>update_many({'_id': id}, doc, True)\<close>: update every match, insert when there is none.\<close>

definition mongo_upsert :: "timestamp \<Rightarrow> transaction \<Rightarrow> mongo_store \<Rightarrow> mongo_store" where
  "mongo_upsert loaded t s =
     (if list_ex (\<lambda>d. doc_id d = transaction_id t) s
      then map (\<lambda>d. if doc_id d = transaction_id t then mongo_set t d else d) s
      else s @ [mongo_insert loaded t])"

text \<open>
  \<^verbatim>\<open>MongoDBStorage.save_transactions\<close>. The result is the exception raised, if any, and
  the collection as it is then. When \<^verbatim>\<open>t.to_dict()\<close> has a key \<^verbatim>\<open>plaid2text\<close>,
  \<^verbatim>\<open>$set\<close> and \<^verbatim>\<open>$setOnInsert\<close> name the same path and the server rejects the
  update (a write error).
\<close>

fun mongo_save_transactions ::
  "timestamp \<Rightarrow> mongo_store \<Rightarrow> transaction list \<Rightarrow> error option \<times> mongo_store" where
  "mongo_save_transactions loaded s [] = (None, s)"
| "mongo_save_transactions loaded s (t # ts) =
     (if \<not> pending t then
        (if plaid2text t \<noteq> None then (Some WriteError, s)
         else mongo_save_transactions loaded (mongo_upsert loaded t s) ts)
      else mongo_save_transactions loaded s ts)"

text \<open>The query \<^verbatim>\<open>{'plaid2text.pulled_to_file': {'$ne': True}}\<close>: true also when the path is missing.\<close>

definition pulled_ne_True :: "mongo_doc \<Rightarrow> bool" where
  "pulled_ne_True d =
     (case plaid2text d of
        None \<Rightarrow> True
      | Some m \<Rightarrow> map_of m ''pulled_to_file'' \<noteq> Some (MBool True))"

text \<open>The \<^verbatim>\<open>date\<close> clause of the query, from the two optional bounds (already at midnight).\<close>

definition mongo_date_query ::
  "pydatetime option \<Rightarrow> pydatetime option \<Rightarrow> mongo_doc \<Rightarrow> bool" where
  "mongo_date_query from_date to_date d =
     (case (from_date, to_date) of
        (Some f, Some t) \<Rightarrow> (if f \<le> t then f \<le> date d \<and> date d \<le> t else True)
      | (Some f, None) \<Rightarrow> f \<le> date d
      | (None, Some t) \<Rightarrow> date d \<le> t
      | (None, None) \<Rightarrow> True)"

text \<open>
  \<^verbatim>\<open>MongoDBStorage.get_transactions\<close>: \<^verbatim>\<open>find(query).sort('date', ASCENDING)\<close>.
  The server does not fix the order of documents with equal dates; the model keeps their
  natural order.
\<close>

definition mongo_get_transactions ::
  "mongo_store \<Rightarrow> date option \<Rightarrow> date option \<Rightarrow> bool \<Rightarrow> mongo_doc list" where
  "mongo_get_transactions s from_date to_date only_new =
     sort_key date
       (filter (\<lambda>d. (if only_new then pulled_ne_True d else True) \<and>
                     mongo_date_query (map_option combine from_date)
                       (map_option combine to_date) d) s)"

text \<open>
  One entry of \<^verbatim>\<open>update\<close>: the value popped from the key \<^verbatim>\<open>transaction_id\<close>, and
  the other keys of the dictionary.
\<close>

type_synonym update_entry = "string \<times> metadata"

text \<open>\<^verbatim>\<open>mark_pulled\<close> as a stored value: \<open>None\<close> is Python's None.\<close>

definition mark_value :: "bool option \<Rightarrow> mvalue" where
  "mark_value mark_pulled = (case mark_pulled of None \<Rightarrow> MNone | Some b \<Rightarrow> MBool b)"

text \<open>The dictionary \<^verbatim>\<open>txn\<close> after the two assignments of \<^verbatim>\<open>MongoDBStorage.update_transaction\<close>.\<close>

definition mongo_patch :: "timestamp \<Rightarrow> metadata \<Rightarrow> bool option \<Rightarrow> metadata" where
  "mongo_patch now txn mark_pulled =
     (let txn1 = AList.update ''pulled_to_file'' (mark_value mark_pulled) txn
      in if mark_pulled = Some True
         then AList.update ''date_last_pulled'' (MTime now) txn1
         else txn1)"

text \<open>\<^verbatim>\<open>update_one({'_id': id}, {'$set': {'plaid2text': m}})\<close>: the first match only, no upsert.\<close>

fun mongo_update_one :: "string \<Rightarrow> metadata \<Rightarrow> mongo_store \<Rightarrow> mongo_store" where
  "mongo_update_one i m [] = []"
| "mongo_update_one i m (d # ds) =
     (if doc_id d = i then d\<lparr>plaid2text := Some m\<rparr> # ds
      else d # mongo_update_one i m ds)"

text \<open>\<^verbatim>\<open>MongoDBStorage.update_transaction\<close>; \<open>now\<close> is what \<^verbatim>\<open>datetime.now()\<close> returns.\<close>

fun mongo_update_transaction ::
  "timestamp \<Rightarrow> mongo_store \<Rightarrow> update_entry list \<Rightarrow> bool option \<Rightarrow> mongo_store" where
  "mongo_update_transaction now s [] mark_pulled = s"
| "mongo_update_transaction now s ((i, txn) # rest) mark_pulled =
     mongo_update_transaction now
       (mongo_update_one i (mongo_patch now txn mark_pulled) s) rest mark_pulled"

text \<open>\<^verbatim>\<open>MongoDBStorage.check_pending\<close>: some document is not marked as pulled.\<close>

definition mongo_check_pending :: "mongo_store \<Rightarrow> bool" where
  "mongo_check_pending s = (length (filter pulled_ne_True s) > 0)"

section \<open>Serialization adapters\<close>

text \<open>
  The JSON object \<^verbatim>\<open>serialize_transaction\<close> builds: the keys it assigns and no other,
  \<^verbatim>\<open>date\<close> and \<^verbatim>\<open>authorized_date\<close> as ISO dates.
\<close>

type_synonym plaid_json = "(date, date) txn"

text \<open>
  \<^verbatim>\<open>serialize_transaction\<close>. \<^verbatim>\<open>obj.authorized_date.isoformat()\<close> is called with
  no test for None: on None it raises AttributeError. \<^verbatim>\<open>datetime\<close> is tested, and a
  null stays a null.
\<close>

definition serialize_transaction :: "transaction \<Rightarrow> error + plaid_json" where
  "serialize_transaction obj =
     (case authorized_date obj of
        None \<Rightarrow> Inl AttributeError
      | Some a \<Rightarrow>
          Inr \<lparr>account_id = account_id obj, amount = amount obj,
               iso_currency_code = iso_currency_code obj, category = category obj,
               category_id = category_id obj, date = date obj, name = name obj,
               pending = pending obj,
               pending_transaction_id = pending_transaction_id obj,
               account_owner = account_owner obj, transaction_id = transaction_id obj,
               authorized_date = a,
               datetime = (case datetime obj of Some dt \<Rightarrow> Some dt | None \<Rightarrow> None),
               payment_channel = payment_channel obj\<rparr>)"

text \<open>The upstream item, and the mapping \<^verbatim>\<open>serialize_item\<close> builds from it.\<close>

record item =
  item_id :: string
  webhook :: "string option"
  available_products :: "string list"
  billed_products :: "string list"
  consent_expiration_time :: "timestamp option"
  update_type :: string
  institution_id :: "string option"
  products :: "string list"

definition serialize_item :: "item \<Rightarrow> item" where
  "serialize_item obj =
     \<lparr>item_id = item_id obj, webhook = webhook obj,
      available_products = map (\<lambda>p. p) (available_products obj),
      billed_products = map (\<lambda>p. p) (billed_products obj),
      consent_expiration_time =
        (case consent_expiration_time obj of Some c \<Rightarrow> Some c | None \<Rightarrow> None),
      update_type = update_type obj, institution_id = institution_id obj,
      products = map (\<lambda>p. p) (products obj)\<rparr>"

section \<open>SQLiteStorage\<close>

text \<open>
  A row of the table \<^verbatim>\<open>transactions\<close>. \<^verbatim>\<open>plaid_json\<close> holds the JSON text of a
  serialized transaction; \<^verbatim>\<open>metadata\<close> is NULL (\<open>None\<close>) or the JSON text of a
  dictionary. The table is the list of its rows in rowid order; the unique index is on
  \<^verbatim>\<open>(account_id, transaction_id)\<close>.
\<close>

record sqlite_row =
  col_account_id :: string
  col_transaction_id :: string
  col_created :: timestamp
  col_updated :: timestamp
  col_plaid_json :: plaid_json
  col_metadata :: "metadata option"

type_synonym sqlite_db = "sqlite_row list"

text \<open>\<^verbatim>\<open>json.dumps\<close> of a metadata dictionary: a datetime value is not JSON serializable.\<close>

definition json_dumps :: "metadata \<Rightarrow> error + metadata" where
  "json_dumps m =
     (if list_ex (\<lambda>(k, v). case v of MTime x \<Rightarrow> True | _ \<Rightarrow> False) m
      then Inl TypeError else Inr m)"

text \<open>
  The statement \<^verbatim>\<open>insert ... on conflict(account_id, transaction_id) DO UPDATE set
  updated = now, plaid_json = excluded.plaid_json, metadata = excluded.metadata\<close>.
\<close>

definition sqlite_upsert ::
  "timestamp \<Rightarrow> string \<Rightarrow> string \<Rightarrow> plaid_json \<Rightarrow> metadata option \<Rightarrow> sqlite_db \<Rightarrow> sqlite_db"
  where
  "sqlite_upsert now act_id trans_id j md db =
     (if list_ex (\<lambda>r. col_account_id r = act_id \<and> col_transaction_id r = trans_id) db
      then map (\<lambda>r. if col_account_id r = act_id \<and> col_transaction_id r = trans_id
                     then r\<lparr>col_updated := now, col_plaid_json := j, col_metadata := md\<rparr>
                     else r) db
      else db @ [\<lparr>col_account_id = act_id, col_transaction_id = trans_id,
                  col_created = now, col_updated = now,
                  col_plaid_json = j, col_metadata = md\<rparr>])"

text \<open>
  \<^verbatim>\<open>SQLiteStorage.save_transactions\<close>; \<open>now\<close> is the clock of the statements. Each
  row is committed on its own, so an exception leaves the rows written before it. The loop
  has no test of \<^verbatim>\<open>pending\<close>.
\<close>

fun sqlite_save_transactions ::
  "timestamp \<Rightarrow> sqlite_db \<Rightarrow> transaction list \<Rightarrow> error option \<times> sqlite_db" where
  "sqlite_save_transactions now db [] = (None, db)"
| "sqlite_save_transactions now db (t # ts) =
     (case (case plaid2text t of
              None \<Rightarrow> Inr None
            | Some m \<Rightarrow> (case json_dumps m of Inl e \<Rightarrow> Inl e | Inr x \<Rightarrow> Inr (Some x)))
      of
        Inl e \<Rightarrow> (Some e, db)
      | Inr md \<Rightarrow>
          (case serialize_transaction t of
             Inl e \<Rightarrow> (Some e, db)
           | Inr j \<Rightarrow>
               sqlite_save_transactions now
                 (sqlite_upsert now (account_id t) (transaction_id t) j md db) ts))"

text \<open>
  \<^verbatim>\<open>json_extract(plaid_json, '$.pulled_to_file')\<close>: the serialized transaction has no
  such key, so the value is NULL.
\<close>

definition json_extract_pulled_to_file :: "plaid_json \<Rightarrow> bool option" where
  "json_extract_pulled_to_file j = None"

text \<open>The condition \<^verbatim>\<open>coalesce(json_extract(plaid_json, '$.pulled_to_file'), false) = false\<close>.\<close>

definition sqlite_new_condition :: "sqlite_row \<Rightarrow> bool" where
  "sqlite_new_condition r =
     ((case json_extract_pulled_to_file (col_plaid_json r) of None \<Rightarrow> False | Some b \<Rightarrow> b)
        = False)"

text \<open>
  The condition on \<^verbatim>\<open>json_extract(plaid_json, '$.date')\<close>, the text
  \<^verbatim>\<open>obj.date.isoformat()\<close> that \<^verbatim>\<open>serialize_transaction\<close> stored. With both
  bounds in order the parameters are the texts \<^verbatim>\<open>strftime("%Y-%m-%d")\<close> of the bounds,
  for \<^verbatim>\<open>between ? and ?\<close>. With one bound the parameter is the date itself, which
  \<^verbatim>\<open>sqlite3\<close> binds as its \<^verbatim>\<open>isoformat()\<close>. The test
  \<^verbatim>\<open>from_date <= to_date\<close> compares the dates.
\<close>

definition sqlite_date_condition :: "date option \<Rightarrow> date option \<Rightarrow> sqlite_row \<Rightarrow> bool" where
  "sqlite_date_condition from_date to_date r =
     (case (from_date, to_date) of
        (Some f, Some t) \<Rightarrow>
          (if f \<le> t
           then strftime_ymd f \<le> isoformat (date (col_plaid_json r)) \<and>
                isoformat (date (col_plaid_json r)) \<le> strftime_ymd t
           else True)
      | (Some f, None) \<Rightarrow> isoformat f \<le> isoformat (date (col_plaid_json r))
      | (None, Some t) \<Rightarrow> isoformat (date (col_plaid_json r)) \<le> isoformat t
      | (None, None) \<Rightarrow> True)"

text \<open>
  The WHERE clause, the conditions joined by AND, and the rows the query selects, in the
  order of the table (the query has no ORDER BY).
\<close>

definition sqlite_where :: "date option \<Rightarrow> date option \<Rightarrow> bool \<Rightarrow> sqlite_row \<Rightarrow> bool" where
  "sqlite_where from_date to_date only_new r =
     ((if only_new then sqlite_new_condition r else True) \<and>
      sqlite_date_condition from_date to_date r)"

definition sqlite_select :: "sqlite_db \<Rightarrow> date option \<Rightarrow> date option \<Rightarrow> bool \<Rightarrow> sqlite_row list"
  where
  "sqlite_select db from_date to_date only_new =
     filter (sqlite_where from_date to_date only_new) db"

text \<open>
  The body of the loop over the fetched rows: the dictionary \<^verbatim>\<open>t\<close> appended to
  \<^verbatim>\<open>ret\<close>. A NULL metadata becomes \<^verbatim>\<open>{}\<close>, and an empty dictionary becomes
  None; \<^verbatim>\<open>date\<close> is parsed to a datetime, the midnight of that date.
\<close>

definition sqlite_decode :: "sqlite_row \<Rightarrow> (pydatetime, date) txn_meta" where
  "sqlite_decode row =
     (let t = col_plaid_json row;
          p = (case col_metadata row of Some m \<Rightarrow> m | None \<Rightarrow> [])
      in \<lparr>account_id = account_id t, amount = amount t,
          iso_currency_code = iso_currency_code t, category = category t,
          category_id = category_id t, date = combine (date t), name = name t,
          pending = pending t, pending_transaction_id = pending_transaction_id t,
          account_owner = account_owner t, transaction_id = transaction_id t,
          authorized_date = authorized_date t, datetime = datetime t,
          payment_channel = payment_channel t,
          plaid2text = (if length p = 0 then None else Some p)\<rparr>)"

text \<open>
  \<^verbatim>\<open>SQLiteStorage.get_transactions\<close>. \<^verbatim>\<open>print(transactions[0])\<close> comes before the
  loop: on an empty result it raises IndexError.
\<close>

definition sqlite_get_transactions ::
  "sqlite_db \<Rightarrow> date option \<Rightarrow> date option \<Rightarrow> bool \<Rightarrow> error + (pydatetime, date) txn_meta list"
  where
  "sqlite_get_transactions db from_date to_date only_new =
     (let transactions = sqlite_select db from_date to_date only_new
      in case transactions of
           [] \<Rightarrow> Inl IndexError
         | first # _ \<Rightarrow> Inr (map sqlite_decode transactions))"

text \<open>
  \<^verbatim>\<open>SQLiteStorage.update_transaction\<close>. In the body of the loop,
  \<^verbatim>\<open>txn['archived'] = null\<close> comes before the UPDATE statement; the module defines no
  name \<^verbatim>\<open>null\<close>, so the first entry raises NameError and no statement is executed.
\<close>

fun sqlite_update_transaction ::
  "timestamp \<Rightarrow> sqlite_db \<Rightarrow> update_entry list \<Rightarrow> bool option \<Rightarrow> error option \<times> sqlite_db"
  where
  "sqlite_update_transaction now db [] mark_pulled = (None, db)"
| "sqlite_update_transaction now db ((trans_id, txn) # rest) mark_pulled = (Some NameError, db)"

text \<open>
  \<^verbatim>\<open>SQLiteStorage.check_pending\<close> is declared with no parameter, not even
  \<^verbatim>\<open>self\<close>. \<open>nargs\<close> is the number of positional arguments of the call: 1 when it
  is called on an instance, 0 when it is called on the class. The body prints a line and
  returns None; the result is the lines printed and the value returned.
\<close>

definition sqlite_check_pending :: "nat \<Rightarrow> error + (string list \<times> bool option)" where
  "sqlite_check_pending nargs =
     (if nargs = 0
      then Inr ([''This function has not been implemented for SQLite databases''], None)
      else Inl TypeError)"

section \<open>Example values\<close>

text \<open>Two settled transactions of account A1, of 2024-01-05 and 2024-01-09.\<close>

definition txn_T1 :: transaction where
  "txn_T1 =
     \<lparr>account_id = ''A1'', amount = 1250, iso_currency_code = Some ''USD'',
      category = None, category_id = None, date = (2024, 1, 5), name = ''Coffee'',
      pending = False, pending_transaction_id = None, account_owner = None,
      transaction_id = ''T1'', authorized_date = Some (2024, 1, 5), datetime = None,
      payment_channel = ''in store'', plaid2text = None\<rparr>"

definition txn_T2 :: transaction where
  "txn_T2 =
     \<lparr>account_id = ''A1'', amount = 990, iso_currency_code = Some ''USD'',
      category = None, category_id = None, date = (2024, 1, 9), name = ''Books'',
      pending = False, pending_transaction_id = None, account_owner = None,
      transaction_id = ''T2'', authorized_date = Some (2024, 1, 8), datetime = None,
      payment_channel = ''online'', plaid2text = None\<rparr>"

text \<open>The table after \<^verbatim>\<open>save_transactions([T1])\<close> on an empty database, at time 5.\<close>

definition sqlite_db_T1 :: sqlite_db where
  "sqlite_db_T1 = snd (sqlite_save_transactions 5 [] [txn_T1])"

text \<open>The collection after \<^verbatim>\<open>save_transactions([T2, T1])\<close> on an empty one, module loaded at 5.\<close>

definition mongo_T2_T1 :: mongo_store where
  "mongo_T2_T1 = snd (mongo_save_transactions 5 [] [txn_T2, txn_T1])"

text \<open>The table after \<^verbatim>\<open>save_transactions([T2, T1])\<close> on an empty database, at time 5.\<close>

definition sqlite_db_T2_T1 :: sqlite_db where
  "sqlite_db_T2_T1 = snd (sqlite_save_transactions 5 [] [txn_T2, txn_T1])"

text \<open>
  T1 carrying a metadata dictionary, T1 downloaded again with another amount, and T1 while
  it is still pending.
\<close>

definition txn_T1_tagged :: transaction where
  "txn_T1_tagged = txn_T1\<lparr>plaid2text := Some [(''payee'', MStr ''Cafe'')]\<rparr>"

definition txn_T1_again :: transaction where
  "txn_T1_again = txn_T1\<lparr>amount := 1300\<rparr>"

definition txn_T1_pending :: transaction where
  "txn_T1_pending = txn_T1\<lparr>pending := True\<rparr>"

section \<open>Collections built by the module\<close>

text \<open>
  The calls that write a collection, and a collection after a sequence of them. Each save
  carries the instant its process loaded the module; a save that raises leaves what it
  wrote before.
\<close>

datatype mongo_call =
    Save timestamp "transaction list"
  | Update timestamp "update_entry list" "bool option"

fun mongo_run :: "mongo_store \<Rightarrow> mongo_call list \<Rightarrow> mongo_store" where
  "mongo_run s [] = s"
| "mongo_run s (Save loaded ts # calls) =
     mongo_run (snd (mongo_save_transactions loaded s ts)) calls"
| "mongo_run s (Update now upd mark_pulled # calls) =
     mongo_run (mongo_update_transaction now s upd mark_pulled) calls"


text \<open>A document whose metadata sub-document is present and not empty.\<close>

definition has_metadata :: "mongo_doc \<Rightarrow> bool" where
  "has_metadata d = (case plaid2text d of None \<Rightarrow> False | Some m \<Rightarrow> m \<noteq> [])"

section \<open>Auxiliary facts\<close>

lemma combine_le: "combine a \<le> combine b \<longleftrightarrow> a \<le> b"
  by (auto simp: combine_def)

text \<open>
  The padded ISO texts of two dates are ordered as the dates are, and from the year 1000 on
  \<^verbatim>\<open>strftime('%Y-%m-%d')\<close> writes the ISO text.
\<close>

lemma digit_less: "a < 10 \<Longrightarrow> b < 10 \<Longrightarrow> (digit a < digit b) = (a < b)"
  by (simp add: digit_def less_char_def)

lemma digit_eq: "a < 10 \<Longrightarrow> b < 10 \<Longrightarrow> (digit a = digit b) = (a = b)"
  using digit_less [of a b] digit_less [of b a]
  by (metis nat_neq_iff order_less_irrefl)

lemma lex10:
  "b < 10 \<Longrightarrow> b' < 10 \<Longrightarrow>
     (a < a' \<or> a = a' \<and> (b < b' \<or> b = b' \<and> P))
       = (10 * a + b < 10 * a' + (b'::nat) \<or> 10 * a + b = 10 * a' + b' \<and> P)"
  by (cases P) (simp_all, arith+)

lemma lex100:
  "b < 100 \<Longrightarrow> b' < 100 \<Longrightarrow>
     (a < a' \<or> a = a' \<and> (b < b' \<or> b = b' \<and> P))
       = (100 * a + b < 100 * a' + (b'::nat) \<or> 100 * a + b = 100 * a' + b' \<and> P)"
  by (cases P) (simp_all, arith+)

lemma pad2_le:
  assumes "n < 100" "m < 100"
  shows "(pad2 n @ xs \<le> pad2 m @ ys) = (n < m \<or> n = m \<and> xs \<le> ys)"
proof -
  have a: "n div 10 < 10" "m div 10 < 10" "n mod 10 < 10" "m mod 10 < 10"
    using assms by simp_all
  have "(pad2 n @ xs \<le> pad2 m @ ys) =
          (n div 10 < m div 10 \<or> n div 10 = m div 10 \<and>
            (n mod 10 < m mod 10 \<or> n mod 10 = m mod 10 \<and> xs \<le> ys))"
    by (simp add: pad2_def digit_less digit_eq a)
  also have "\<dots> = (10 * (n div 10) + n mod 10 < 10 * (m div 10) + m mod 10 \<or>
                     10 * (n div 10) + n mod 10 = 10 * (m div 10) + m mod 10 \<and> xs \<le> ys)"
    by (rule lex10 [OF a(3) a(4)])
  finally show ?thesis by simp
qed

lemma pad4_le:
  assumes "n < 10000" "m < 10000"
  shows "(pad4 n @ xs \<le> pad4 m @ ys) = (n < m \<or> n = m \<and> xs \<le> ys)"
proof -
  have a: "n div 100 < 100" "m div 100 < 100" "n mod 100 < 100" "m mod 100 < 100"
    using assms by simp_all
  have "(pad4 n @ xs \<le> pad4 m @ ys) =
          (n div 100 < m div 100 \<or> n div 100 = m div 100 \<and>
            (n mod 100 < m mod 100 \<or> n mod 100 = m mod 100 \<and> xs \<le> ys))"
    unfolding pad4_def append_assoc pad2_le [OF a(1) a(2)] pad2_le [OF a(3) a(4)] ..
  also have "\<dots> = (100 * (n div 100) + n mod 100 < 100 * (m div 100) + m mod 100 \<or>
                     100 * (n div 100) + n mod 100 = 100 * (m div 100) + m mod 100 \<and> xs \<le> ys)"
    by (rule lex100 [OF a(3) a(4)])
  finally show ?thesis by simp
qed

lemma isoformat_le:
  assumes "valid_date a" "valid_date b"
  shows "(isoformat a \<le> isoformat b) = (a \<le> b)"
proof -
  obtain y m d where a: "a = (y, m, d)" by (cases a)
  obtain y' m' d' where b: "b = (y', m', d')" by (cases b)
  from assms have r: "y < 10000" "y' < 10000" "m < 100" "m' < 100" "d < 100" "d' < 100"
    by (simp_all add: valid_date_def a b)
  have p: "(pad2 d \<le> pad2 d') = (d \<le> d')"
    using pad2_le [OF r(5) r(6), of "[]" "[]"] by auto
  have "(isoformat a \<le> isoformat b) =
          (y < y' \<or> y = y' \<and> (m < m' \<or> m = m' \<and> d \<le> d'))"
    by (simp add: a b isoformat_def pad4_le [OF r(1) r(2)] pad2_le [OF r(3) r(4)] p)
  also have "\<dots> = (a \<le> b)"
    by (auto simp: a b)
  finally show ?thesis .
qed

lemma strftime_ymd_iso: "1000 \<le> fst d \<Longrightarrow> strftime_ymd d = isoformat d"
  by (cases d) (simp add: strftime_ymd_def isoformat_def year_text_def)

lemma sqlite_get_unfold:
  "sqlite_get_transactions db f t n =
     (if sqlite_select db f t n = [] then Inl IndexError
      else Inr (map sqlite_decode (sqlite_select db f t n)))"
  by (cases "sqlite_select db f t n") (simp_all add: sqlite_get_transactions_def Let_def)

lemma sqlite_select_empty:
  "sqlite_select db f t n = [] \<longleftrightarrow> (\<forall>r\<in>set db. \<not> sqlite_where f t n r)"
  by (simp add: sqlite_select_def filter_empty_conv)

lemma sqlite_db_T1_rows:
  "sqlite_db_T1 =
     [\<lparr>col_account_id = ''A1'', col_transaction_id = ''T1'', col_created = 5, col_updated = 5,
       col_plaid_json =
         \<lparr>account_id = ''A1'', amount = 1250, iso_currency_code = Some ''USD'',
          category = None, category_id = None, date = (2024, 1, 5), name = ''Coffee'',
          pending = False, pending_transaction_id = None, account_owner = None,
          transaction_id = ''T1'', authorized_date = (2024, 1, 5), datetime = None,
          payment_channel = ''in store''\<rparr>,
       col_metadata = None\<rparr>]"
  by (simp add: sqlite_db_T1_def txn_T1_def serialize_transaction_def sqlite_upsert_def)

lemma mongo_get_mset:
  "mset (mongo_get_transactions s fo to n) =
     filter_mset (\<lambda>d. (n \<longrightarrow> pulled_ne_True d) \<and>
        mongo_date_query (map_option combine fo) (map_option combine to) d) (mset s)"
  by (cases n) (simp_all add: mongo_get_transactions_def)

lemma mongo_get_sorted: "sorted (map date (mongo_get_transactions s fo to n))"
  by (simp add: mongo_get_transactions_def)

lemma mongo_bounds:
  "(mset (mongo_get_transactions s None None n) =
      filter_mset (\<lambda>d. n \<longrightarrow> pulled_ne_True d) (mset s))
   \<and> (f \<le> t \<longrightarrow> mset (mongo_get_transactions s (Some f) (Some t) n) =
      filter_mset (\<lambda>d. (n \<longrightarrow> pulled_ne_True d) \<and> combine f \<le> date d \<and> date d \<le> combine t) (mset s))
   \<and> (t < f \<longrightarrow> mset (mongo_get_transactions s (Some f) (Some t) n) =
      filter_mset (\<lambda>d. n \<longrightarrow> pulled_ne_True d) (mset s))
   \<and> (mset (mongo_get_transactions s (Some f) None n) =
      filter_mset (\<lambda>d. (n \<longrightarrow> pulled_ne_True d) \<and> combine f \<le> date d) (mset s))
   \<and> (mset (mongo_get_transactions s None (Some t) n) =
      filter_mset (\<lambda>d. (n \<longrightarrow> pulled_ne_True d) \<and> date d \<le> combine t) (mset s))"
  by (cases "f \<le> t") (auto simp: mongo_get_mset mongo_date_query_def combine_le)

lemma sqlite_get_Inr:
  "sqlite_get_transactions db fo to n = Inr ret \<Longrightarrow>
     ret = map sqlite_decode (filter (sqlite_where fo to n) db)"
  by (simp add: sqlite_get_unfold sqlite_select_def split: if_splits)

lemma sqlite_get_mset:
  "sqlite_get_transactions db fo to n = Inr ret \<Longrightarrow>
     mset ret = image_mset sqlite_decode (filter_mset (sqlite_where fo to n) (mset db))"
  by (drule sqlite_get_Inr) simp

lemma sqlite_where_dates:
  assumes "valid_date (date (col_plaid_json r))" "valid_date f" "valid_date t"
  shows "sqlite_where None None n r = (n \<longrightarrow> sqlite_new_condition r)"
    and "f \<le> t \<Longrightarrow> 1000 \<le> fst f \<Longrightarrow>
           sqlite_where (Some f) (Some t) n r =
             ((n \<longrightarrow> sqlite_new_condition r) \<and>
              f \<le> date (col_plaid_json r) \<and> date (col_plaid_json r) \<le> t)"
    and "t < f \<Longrightarrow> sqlite_where (Some f) (Some t) n r = (n \<longrightarrow> sqlite_new_condition r)"
    and "sqlite_where (Some f) None n r =
           ((n \<longrightarrow> sqlite_new_condition r) \<and> f \<le> date (col_plaid_json r))"
    and "sqlite_where None (Some t) n r =
           ((n \<longrightarrow> sqlite_new_condition r) \<and> date (col_plaid_json r) \<le> t)"
proof -
  show "sqlite_where None None n r = (n \<longrightarrow> sqlite_new_condition r)"
    by (cases n) (simp_all add: sqlite_where_def sqlite_date_condition_def)
  show "sqlite_where (Some f) None n r =
           ((n \<longrightarrow> sqlite_new_condition r) \<and> f \<le> date (col_plaid_json r))"
    by (cases n) (simp_all add: sqlite_where_def sqlite_date_condition_def isoformat_le assms)
  show "sqlite_where None (Some t) n r =
           ((n \<longrightarrow> sqlite_new_condition r) \<and> date (col_plaid_json r) \<le> t)"
    by (cases n) (simp_all add: sqlite_where_def sqlite_date_condition_def isoformat_le assms)
  show "sqlite_where (Some f) (Some t) n r = (n \<longrightarrow> sqlite_new_condition r)" if "t < f"
    using that by (cases n; cases "f \<le> t") (simp_all add: sqlite_where_def sqlite_date_condition_def)
  show "sqlite_where (Some f) (Some t) n r =
             ((n \<longrightarrow> sqlite_new_condition r) \<and>
              f \<le> date (col_plaid_json r) \<and> date (col_plaid_json r) \<le> t)"
    if le: "f \<le> t" and y: "1000 \<le> fst f"
  proof -
    from le have "fst f \<le> fst t"
      by (cases f; cases t) auto
    with y have "1000 \<le> fst t" by simp
    with y le show ?thesis
      by (cases n)
        (simp_all add: sqlite_where_def sqlite_date_condition_def strftime_ymd_iso
          isoformat_le assms)
  qed
qed

lemma sqlite_bounds:
  assumes rows: "list_all (\<lambda>r. valid_date (date (col_plaid_json r))) db"
    and f: "valid_date f" and t: "valid_date t"
  shows "(sqlite_get_transactions db None None n = Inr ret \<longrightarrow>
      mset ret = image_mset sqlite_decode
        (filter_mset (\<lambda>r. n \<longrightarrow> sqlite_new_condition r) (mset db)))
   \<and> (f \<le> t \<and> 1000 \<le> fst f \<longrightarrow>
        sqlite_get_transactions db (Some f) (Some t) n = Inr ret \<longrightarrow>
      mset ret = image_mset sqlite_decode
        (filter_mset (\<lambda>r. (n \<longrightarrow> sqlite_new_condition r) \<and>
              f \<le> date (col_plaid_json r) \<and> date (col_plaid_json r) \<le> t) (mset db)))
   \<and> (t < f \<longrightarrow> sqlite_get_transactions db (Some f) (Some t) n = Inr ret \<longrightarrow>
      mset ret = image_mset sqlite_decode
        (filter_mset (\<lambda>r. n \<longrightarrow> sqlite_new_condition r) (mset db)))
   \<and> (sqlite_get_transactions db (Some f) None n = Inr ret \<longrightarrow>
      mset ret = image_mset sqlite_decode
        (filter_mset (\<lambda>r. (n \<longrightarrow> sqlite_new_condition r) \<and>
              f \<le> date (col_plaid_json r)) (mset db)))
   \<and> (sqlite_get_transactions db None (Some t) n = Inr ret \<longrightarrow>
      mset ret = image_mset sqlite_decode
        (filter_mset (\<lambda>r. (n \<longrightarrow> sqlite_new_condition r) \<and>
              date (col_plaid_json r) \<le> t) (mset db)))"
proof -
  have v: "\<And>r. r \<in># mset db \<Longrightarrow> valid_date (date (col_plaid_json r))"
    using rows by (simp add: list_all_iff)
  note w = sqlite_where_dates [OF v f t]
  have eq: "\<And>P Q. (\<And>r. r \<in># mset db \<Longrightarrow> P r = Q r) \<Longrightarrow>
      image_mset sqlite_decode (filter_mset P (mset db)) =
      image_mset sqlite_decode (filter_mset Q (mset db))"
    by (metis (mono_tags, lifting) filter_mset_cong)
  show ?thesis
  proof (intro conjI impI)
    assume "sqlite_get_transactions db None None n = Inr ret"
    show "mset ret = image_mset sqlite_decode
        (filter_mset (\<lambda>r. n \<longrightarrow> sqlite_new_condition r) (mset db))"
      unfolding sqlite_get_mset [OF \<open>sqlite_get_transactions db None None n = Inr ret\<close>]
      by (rule eq) (simp add: w(1))
  next
    assume a: "f \<le> t \<and> 1000 \<le> fst f"
      and b: "sqlite_get_transactions db (Some f) (Some t) n = Inr ret"
    show "mset ret = image_mset sqlite_decode
        (filter_mset (\<lambda>r. (n \<longrightarrow> sqlite_new_condition r) \<and>
              f \<le> date (col_plaid_json r) \<and> date (col_plaid_json r) \<le> t) (mset db))"
      unfolding sqlite_get_mset [OF b]
      by (rule eq) (use a in \<open>simp add: w(2)\<close>)
  next
    assume a: "t < f" and b: "sqlite_get_transactions db (Some f) (Some t) n = Inr ret"
    show "mset ret = image_mset sqlite_decode
        (filter_mset (\<lambda>r. n \<longrightarrow> sqlite_new_condition r) (mset db))"
      unfolding sqlite_get_mset [OF b]
      by (rule eq) (use a in \<open>simp add: w(3)\<close>)
  next
    assume b: "sqlite_get_transactions db (Some f) None n = Inr ret"
    show "mset ret = image_mset sqlite_decode
        (filter_mset (\<lambda>r. (n \<longrightarrow> sqlite_new_condition r) \<and>
              f \<le> date (col_plaid_json r)) (mset db))"
      unfolding sqlite_get_mset [OF b]
      by (rule eq) (simp add: w(4))
  next
    assume b: "sqlite_get_transactions db None (Some t) n = Inr ret"
    show "mset ret = image_mset sqlite_decode
        (filter_mset (\<lambda>r. (n \<longrightarrow> sqlite_new_condition r) \<and>
              date (col_plaid_json r) \<le> t) (mset db))"
      unfolding sqlite_get_mset [OF b]
      by (rule eq) (simp add: w(5))
  qed
qed

lemma mongo_T2_T1_docs:
  "mongo_T2_T1 =
     [\<lparr>account_id = ''A1'', amount = 990, iso_currency_code = Some ''USD'',
       category = None, category_id = None, date = combine (2024, 1, 9), name = ''Books'',
       pending = False, pending_transaction_id = None, account_owner = None,
       transaction_id = ''T2'', authorized_date = Some (combine (2024, 1, 8)), datetime = None,
       payment_channel = ''online'',
       plaid2text = map_of (TEXT_DOC 5) ''plaid2text'', doc_id = ''T2''\<rparr>,
      \<lparr>account_id = ''A1'', amount = 1250, iso_currency_code = Some ''USD'',
       category = None, category_id = None, date = combine (2024, 1, 5), name = ''Coffee'',
       pending = False, pending_transaction_id = None, account_owner = None,
       transaction_id = ''T1'', authorized_date = Some (combine (2024, 1, 5)), datetime = None,
       payment_channel = ''in store'',
       plaid2text = map_of (TEXT_DOC 5) ''plaid2text'', doc_id = ''T1''\<rparr>]"
  by (simp add: mongo_T2_T1_def txn_T1_def txn_T2_def mongo_upsert_def mongo_insert_def)

lemma sqlite_db_T2_T1_rows:
  "sqlite_db_T2_T1 =
     [\<lparr>col_account_id = ''A1'', col_transaction_id = ''T2'', col_created = 5, col_updated = 5,
       col_plaid_json =
         \<lparr>account_id = ''A1'', amount = 990, iso_currency_code = Some ''USD'',
          category = None, category_id = None, date = (2024, 1, 9), name = ''Books'',
          pending = False, pending_transaction_id = None, account_owner = None,
          transaction_id = ''T2'', authorized_date = (2024, 1, 8), datetime = None,
          payment_channel = ''online''\<rparr>,
       col_metadata = None\<rparr>,
      \<lparr>col_account_id = ''A1'', col_transaction_id = ''T1'', col_created = 5, col_updated = 5,
       col_plaid_json =
         \<lparr>account_id = ''A1'', amount = 1250, iso_currency_code = Some ''USD'',
          category = None, category_id = None, date = (2024, 1, 5), name = ''Coffee'',
          pending = False, pending_transaction_id = None, account_owner = None,
          transaction_id = ''T1'', authorized_date = (2024, 1, 5), datetime = None,
          payment_channel = ''in store''\<rparr>,
       col_metadata = None\<rparr>]"
  by (simp add: sqlite_db_T2_T1_def txn_T1_def txn_T2_def serialize_transaction_def sqlite_upsert_def)


section \<open>The relational backend's read of an empty result\<close>

text \<open>
  C10. \<^verbatim>\<open>SQLiteStorage.get_transactions\<close> returns normally exactly when some stored
  row satisfies the WHERE clause. When no row does, and so on an empty table, it raises
  IndexError (from \<^verbatim>\<open>print(transactions[0])\<close>) and returns no sequence.
\<close>

theorem sqlite_get_transactions_needs_a_row:
  "((\<exists>ret. sqlite_get_transactions db from_date to_date only_new = Inr ret) \<longleftrightarrow>
      (\<exists>r\<in>set db. sqlite_where from_date to_date only_new r))
   \<and> ((\<forall>r\<in>set db. \<not> sqlite_where from_date to_date only_new r) \<longrightarrow>
         sqlite_get_transactions db from_date to_date only_new = Inl IndexError)
   \<and> sqlite_get_transactions [] from_date to_date only_new = Inl IndexError"
  by (simp add: sqlite_get_unfold sqlite_select_empty)

theorem sqlite_get_transactions_needs_a_row_witness:
  "(\<exists>ret. sqlite_get_transactions sqlite_db_T1 None None True = Inr ret)
   \<and> sqlite_get_transactions sqlite_db_T1 (Some (2024, 1, 15)) None True = Inl IndexError
   \<and> sqlite_get_transactions [] None None True = Inl IndexError"
  using sqlite_get_transactions_needs_a_row [of sqlite_db_T1 None None True]
    sqlite_get_transactions_needs_a_row [of sqlite_db_T1 "Some (2024, 1, 15)" None True]
  by (simp add: sqlite_db_T1_rows sqlite_where_def sqlite_new_condition_def
      json_extract_pulled_to_file_def sqlite_date_condition_def isoformat_le valid_date_def)

section \<open>Date bounds and order of \<^verbatim>\<open>get_transactions\<close>\<close>

text \<open>
  C4, counterexample. With both bounds given and \<^verbatim>\<open>from_date\<close> after
  \<^verbatim>\<open>to_date\<close>, the test \<^verbatim>\<open>from_date <= to_date\<close> fails and no branch adds a
  date clause: the document of 2024-01-09 is returned for the bounds 2024-01-10 and
  2023-12-26, though its date is not between them.
\<close>

theorem get_transactions_reversed_bounds_counterexample:
  "hd mongo_T2_T1 \<in> set (mongo_get_transactions mongo_T2_T1 (Some (2024, 1, 10)) (Some (2023, 12, 26)) False)
   \<and> \<not> (combine (2024, 1, 10) \<le> date (hd mongo_T2_T1) \<and> date (hd mongo_T2_T1) \<le> combine (2023, 12, 26))"
  by (simp add: mongo_T2_T1_docs mongo_get_transactions_def mongo_date_query_def combine_le)

lemma sqlite_db_T2_T1_valid:
  "list_all (\<lambda>r. valid_date (date (col_plaid_json r))) sqlite_db_T2_T1"
  by (simp add: sqlite_db_T2_T1_rows valid_date_def)

lemma sqlite_get_T2_T1_range:
  "sqlite_get_transactions sqlite_db_T2_T1 (Some (2024, 1, 7)) (Some (2024, 1, 15)) True =
     Inr [sqlite_decode (hd sqlite_db_T2_T1)]"
  by (simp add: sqlite_get_unfold sqlite_select_def sqlite_db_T2_T1_rows sqlite_where_def
      sqlite_new_condition_def json_extract_pulled_to_file_def sqlite_date_condition_def
      strftime_ymd_iso isoformat_le valid_date_def)

lemma sqlite_get_T2_T1_reversed:
  "sqlite_get_transactions sqlite_db_T2_T1 (Some (2024, 1, 15)) (Some (2024, 1, 7)) True =
     Inr (map sqlite_decode sqlite_db_T2_T1)"
  by (simp add: sqlite_get_unfold sqlite_select_def sqlite_db_T2_T1_rows sqlite_where_def
      sqlite_new_condition_def json_extract_pulled_to_file_def sqlite_date_condition_def)

text \<open>
  C4, as amended. On the document-store backend the result holds exactly the stored
  documents that pass the \<^verbatim>\<open>only_new\<close> filter and the date clause, each as often
  as it is stored, in ascending order of date. The date clause is: no bound, no clause;
  both bounds with \<^verbatim>\<open>from_date <= to_date\<close>, the inclusive range; both bounds with
  \<^verbatim>\<open>from_date > to_date\<close>, no clause; only \<^verbatim>\<open>from_date\<close>, dates from it on;
  only \<^verbatim>\<open>to_date\<close>, dates up to it. On the relational backend, for dates that
  Python can build and, when both bounds are given in order, a \<^verbatim>\<open>from_date\<close> of the
  year 1000 or later, a call that returns gives exactly the decoded rows that pass the same
  clause, each as often as it is stored.
\<close>

theorem get_transactions_date_bounds:
  "(mset (mongo_get_transactions s None None n) =
      filter_mset (\<lambda>d. n \<longrightarrow> pulled_ne_True d) (mset s))
   \<and> (f \<le> t \<longrightarrow> mset (mongo_get_transactions s (Some f) (Some t) n) =
      filter_mset (\<lambda>d. (n \<longrightarrow> pulled_ne_True d) \<and> combine f \<le> date d \<and> date d \<le> combine t) (mset s))
   \<and> (t < f \<longrightarrow> mset (mongo_get_transactions s (Some f) (Some t) n) =
      filter_mset (\<lambda>d. n \<longrightarrow> pulled_ne_True d) (mset s))
   \<and> (mset (mongo_get_transactions s (Some f) None n) =
      filter_mset (\<lambda>d. (n \<longrightarrow> pulled_ne_True d) \<and> combine f \<le> date d) (mset s))
   \<and> (mset (mongo_get_transactions s None (Some t) n) =
      filter_mset (\<lambda>d. (n \<longrightarrow> pulled_ne_True d) \<and> date d \<le> combine t) (mset s))
   \<and> sorted (map date (mongo_get_transactions s from_date to_date n))
   \<and> (list_all (\<lambda>r. valid_date (date (col_plaid_json r))) db \<and> valid_date f \<and> valid_date t \<longrightarrow>
       (sqlite_get_transactions db None None n = Inr ret \<longrightarrow>
          mset ret = image_mset sqlite_decode
            (filter_mset (\<lambda>r. n \<longrightarrow> sqlite_new_condition r) (mset db)))
       \<and> (f \<le> t \<and> 1000 \<le> fst f \<longrightarrow>
            sqlite_get_transactions db (Some f) (Some t) n = Inr ret \<longrightarrow>
          mset ret = image_mset sqlite_decode
            (filter_mset (\<lambda>r. (n \<longrightarrow> sqlite_new_condition r) \<and>
                  f \<le> date (col_plaid_json r) \<and> date (col_plaid_json r) \<le> t) (mset db)))
       \<and> (t < f \<longrightarrow> sqlite_get_transactions db (Some f) (Some t) n = Inr ret \<longrightarrow>
          mset ret = image_mset sqlite_decode
            (filter_mset (\<lambda>r. n \<longrightarrow> sqlite_new_condition r) (mset db)))
       \<and> (sqlite_get_transactions db (Some f) None n = Inr ret \<longrightarrow>
          mset ret = image_mset sqlite_decode
            (filter_mset (\<lambda>r. (n \<longrightarrow> sqlite_new_condition r) \<and>
                  f \<le> date (col_plaid_json r)) (mset db)))
       \<and> (sqlite_get_transactions db None (Some t) n = Inr ret \<longrightarrow>
          mset ret = image_mset sqlite_decode
            (filter_mset (\<lambda>r. (n \<longrightarrow> sqlite_new_condition r) \<and>
                  date (col_plaid_json r) \<le> t) (mset db))))"
  using mongo_bounds [of s n f t] mongo_get_sorted [of s from_date to_date n]
    sqlite_bounds [of db f t n ret]
  by blast

theorem get_transactions_date_bounds_witness:
  "((2024, 1, 7)::date) \<le> (2024, 1, 15)
   \<and> mset (mongo_get_transactions mongo_T2_T1 (Some (2024, 1, 7)) (Some (2024, 1, 15)) True) =
      filter_mset (\<lambda>d. (True \<longrightarrow> pulled_ne_True d) \<and>
          combine (2024, 1, 7) \<le> date d \<and> date d \<le> combine (2024, 1, 15))
        (mset mongo_T2_T1)
   \<and> mset (mongo_get_transactions mongo_T2_T1 (Some (2024, 1, 15)) (Some (2024, 1, 7)) True) =
      filter_mset (\<lambda>d. True \<longrightarrow> pulled_ne_True d) (mset mongo_T2_T1)
   \<and> list_all (\<lambda>r. valid_date (date (col_plaid_json r))) sqlite_db_T2_T1
   \<and> valid_date (2024, 1, 7) \<and> valid_date (2024, 1, 15)
   \<and> sqlite_get_transactions sqlite_db_T2_T1 (Some (2024, 1, 7)) (Some (2024, 1, 15)) True =
        Inr [sqlite_decode (hd sqlite_db_T2_T1)]
   \<and> mset [sqlite_decode (hd sqlite_db_T2_T1)] =
      image_mset sqlite_decode (filter_mset (\<lambda>r. (True \<longrightarrow> sqlite_new_condition r) \<and>
         (2024, 1, 7) \<le> date (col_plaid_json r) \<and> date (col_plaid_json r) \<le> (2024, 1, 15))
         (mset sqlite_db_T2_T1))
   \<and> sqlite_get_transactions sqlite_db_T2_T1 (Some (2024, 1, 15)) (Some (2024, 1, 7)) True =
        Inr (map sqlite_decode sqlite_db_T2_T1)
   \<and> mset (map sqlite_decode sqlite_db_T2_T1) =
      image_mset sqlite_decode
        (filter_mset (\<lambda>r. True \<longrightarrow> sqlite_new_condition r) (mset sqlite_db_T2_T1))"
proof -
  have le: "((2024, 1, 7)::date) \<le> (2024, 1, 15)" and lt: "((2024, 1, 7)::date) < (2024, 1, 15)"
    and y: "1000 \<le> fst ((2024, 1, 7)::date)"
    and v: "valid_date (2024, 1, 7)" "valid_date (2024, 1, 15)"
    by (simp_all add: valid_date_def)
  note a = get_transactions_date_bounds
    [of mongo_T2_T1 True "(2024, 1, 7)" "(2024, 1, 15)" None None sqlite_db_T2_T1
       "[sqlite_decode (hd sqlite_db_T2_T1)]"]
  note b = get_transactions_date_bounds
    [of mongo_T2_T1 True "(2024, 1, 15)" "(2024, 1, 7)" None None sqlite_db_T2_T1
       "map sqlite_decode sqlite_db_T2_T1"]
  show ?thesis
    using le lt y v a b sqlite_db_T2_T1_valid sqlite_get_T2_T1_range sqlite_get_T2_T1_reversed
    by blast
qed

section \<open>The default metadata\<close>

text \<open>
  C9, counterexample. The default metadata is not the value of the claim: in
  \<^verbatim>\<open>TEXT_DOC\<close> the key \<^verbatim>\<open>date_last_pulled\<close> holds the empty string, not null.
\<close>

theorem TEXT_DOC_date_last_pulled_counterexample:
  "map_of (TEXT_DOC 5) ''plaid2text'' \<noteq>
     Some [(''tags'', MList []), (''payee'', MStr ''''), (''posting_account'', MStr ''''),
           (''associated_account'', MStr ''''), (''date_downloaded'', MTime 5),
           (''date_last_pulled'', MNone), (''pulled_to_file'', MBool False)]"
  by (simp add: TEXT_DOC_def)

lemma mongo_upsert_new:
  "transaction_id t \<notin> set (map doc_id s) \<Longrightarrow> mongo_upsert loaded t s = s @ [mongo_insert loaded t]"
  by (force simp: mongo_upsert_def list_ex_iff)

text \<open>
  C9, as amended. The first save of a settled transaction, one whose id no document has,
  appends one document, and its metadata is the sub-document of \<^verbatim>\<open>TEXT_DOC\<close>: empty
  tags, empty payee and accounts, \<^verbatim>\<open>pulled_to_file\<close> false,
  \<^verbatim>\<open>date_last_pulled\<close> the empty string, and \<^verbatim>\<open>date_downloaded\<close> the instant
  the module was loaded, the same for every insertion of the process.
\<close>

theorem default_metadata_on_insert:
  "\<not> pending t \<Longrightarrow> plaid2text t = None \<Longrightarrow> transaction_id t \<notin> set (map doc_id s) \<Longrightarrow>
     mongo_save_transactions loaded s [t] = (None, s @ [mongo_insert loaded t])
     \<and> plaid2text (mongo_insert loaded t) =
         Some [(''tags'', MList []), (''payee'', MStr ''''), (''posting_account'', MStr ''''),
               (''associated_account'', MStr ''''), (''date_downloaded'', MTime loaded),
               (''date_last_pulled'', MStr ''''), (''pulled_to_file'', MBool False)]"
  by (simp add: mongo_upsert_new mongo_insert_def TEXT_DOC_def)

theorem default_metadata_on_insert_witness:
  "mongo_save_transactions 5 [] [txn_T1] = (None, [] @ [mongo_insert 5 txn_T1])
     \<and> plaid2text (mongo_insert 5 txn_T1) =
         Some [(''tags'', MList []), (''payee'', MStr ''''), (''posting_account'', MStr ''''),
               (''associated_account'', MStr ''''), (''date_downloaded'', MTime 5),
               (''date_last_pulled'', MStr ''''), (''pulled_to_file'', MBool False)]"
  using default_metadata_on_insert [of txn_T1 "[]" 5]
  by (simp add: txn_T1_def)

section \<open>\<^verbatim>\<open>check_pending\<close> on the relational backend\<close>

text \<open>
  C7, counterexample. Called with no positional argument, the function returns normally:
  it prints its message and returns None, and raises nothing.
\<close>

theorem sqlite_check_pending_returns_counterexample:
  "sqlite_check_pending 0 =
     Inr ([''This function has not been implemented for SQLite databases''], None)"
  by (simp add: sqlite_check_pending_def)

text \<open>
  C7, as amended. The body of \<^verbatim>\<open>SQLiteStorage.check_pending\<close> prints "This function
  has not been implemented for SQLite databases" and returns None; no call returns a
  boolean.
\<close>

theorem sqlite_check_pending_prints_and_returns_None:
  "sqlite_check_pending 0 =
     Inr ([''This function has not been implemented for SQLite databases''], None)
   \<and> (\<forall>out b. sqlite_check_pending nargs \<noteq> Inr (out, Some b))"
  by (simp add: sqlite_check_pending_def)

section \<open>Serialization of nullable fields\<close>

text \<open>
  \<^verbatim>\<open>serialize_transaction\<close> returns a mapping exactly when \<^verbatim>\<open>authorized_date\<close> is
  not null; a null \<^verbatim>\<open>datetime\<close> and a null consent expiration are kept as nulls.
\<close>

lemma serialize_transaction_Inr_iff:
  "(\<exists>j. serialize_transaction obj = Inr j) \<longleftrightarrow> authorized_date obj \<noteq> None"
  by (cases "authorized_date obj") (simp_all add: serialize_transaction_def)

lemma serialize_transaction_datetime:
  "serialize_transaction obj = Inr j \<Longrightarrow> datetime j = datetime obj"
  by (cases "authorized_date obj"; cases "datetime obj") (auto simp: serialize_transaction_def)

lemma serialize_item_consent:
  "consent_expiration_time (serialize_item obj) = consent_expiration_time obj"
  by (cases "consent_expiration_time obj") (simp_all add: serialize_item_def)

text \<open>
  C6. A transaction whose \<^verbatim>\<open>authorized_date\<close> is null makes
  \<^verbatim>\<open>serialize_transaction\<close> raise AttributeError, and
  \<^verbatim>\<open>SQLiteStorage.save_transactions\<close> with it: the transaction T2 that follows in the
  batch is not saved.
\<close>

theorem serialize_transaction_null_authorized_date:
  "serialize_transaction (txn_T1\<lparr>authorized_date := None\<rparr>) = Inl AttributeError
   \<and> sqlite_save_transactions 5 [] [txn_T1\<lparr>authorized_date := None\<rparr>, txn_T2]
       = (Some AttributeError, [])"
  by (simp add: serialize_transaction_def txn_T1_def)

text \<open>The document-store backend saves the same batch: the null stays a null.\<close>

lemma mongo_save_null_authorized_date:
  "map (\<lambda>d. (doc_id d, authorized_date d))
     (snd (mongo_save_transactions 5 [] [txn_T1\<lparr>authorized_date := None\<rparr>, txn_T2]))
   = [(''T1'', None), (''T2'', Some (combine (2024, 1, 8)))]"
  by (simp add: txn_T1_def txn_T2_def mongo_upsert_def mongo_insert_def)

section \<open>Metadata updates on the document-store backend\<close>

text \<open>
  With unique \<^verbatim>\<open>_id\<close>s, \<^verbatim>\<open>update_one\<close> rewrites the document of that id, and a
  whole call of \<^verbatim>\<open>update_transaction\<close> leaves on each document the patch of the last
  entry that names it.
\<close>

lemma mongo_update_one_doc_ids: "map doc_id (mongo_update_one i m s) = map doc_id s"
  by (induction s) simp_all

lemma mongo_update_one_map:
  "distinct (map doc_id s) \<Longrightarrow>
     mongo_update_one i m s =
       map (\<lambda>d. if doc_id d = i then d\<lparr>plaid2text := Some m\<rparr> else d) s"
proof (induction s)
  case Nil
  then show ?case by simp
next
  case (Cons d ds)
  show ?case
  proof (cases "doc_id d = i")
    case True
    with Cons.prems have "i \<notin> doc_id ` set ds" by simp
    then have "\<forall>x\<in>set ds. doc_id x \<noteq> i" by blast
    then have "map (\<lambda>d. if doc_id d = i then d\<lparr>plaid2text := Some m\<rparr> else d) ds = ds"
      by (simp add: map_idI)
    with True show ?thesis by simp
  next
    case False
    with Cons show ?thesis by simp
  qed
qed

lemma map_of_rev_snoc:
  "map_of (rev rest @ [(i, txn)]) k =
     (case map_of (rev rest) k of None \<Rightarrow> (if k = i then Some txn else None) | Some x \<Rightarrow> Some x)"
  by (simp add: map_add_def split: option.splits)

lemma mongo_update_transaction_map:
  "distinct (map doc_id s) \<Longrightarrow>
     mongo_update_transaction now s upd mark =
       map (\<lambda>d. case map_of (rev upd) (doc_id d) of
                   None \<Rightarrow> d
                 | Some txn \<Rightarrow> d\<lparr>plaid2text := Some (mongo_patch now txn mark)\<rparr>) s"
proof (induction upd arbitrary: s)
  case Nil
  then show ?case by simp
next
  case (Cons e rest)
  obtain i txn where e: "e = (i, txn)" by (cases e)
  let ?s1 = "mongo_update_one i (mongo_patch now txn mark) s"
  have d1: "distinct (map doc_id ?s1)"
    using Cons.prems by (simp add: mongo_update_one_doc_ids)
  have "mongo_update_transaction now s (e # rest) mark = mongo_update_transaction now ?s1 rest mark"
    by (simp add: e)
  also have "\<dots> = map (\<lambda>d. case map_of (rev rest) (doc_id d) of
                   None \<Rightarrow> d
                 | Some txn \<Rightarrow> d\<lparr>plaid2text := Some (mongo_patch now txn mark)\<rparr>) ?s1"
    by (rule Cons.IH [OF d1])
  also have "\<dots> = map (\<lambda>d. case map_of (rev (e # rest)) (doc_id d) of
                   None \<Rightarrow> d
                 | Some txn \<Rightarrow> d\<lparr>plaid2text := Some (mongo_patch now txn mark)\<rparr>) s"
    unfolding mongo_update_one_map [OF Cons.prems] map_map
  proof (rule map_cong [OF refl])
    fix d
    show "((\<lambda>d. case map_of (rev rest) (doc_id d) of
                   None \<Rightarrow> d
                 | Some txn \<Rightarrow> d\<lparr>plaid2text := Some (mongo_patch now txn mark)\<rparr>) \<circ>
           (\<lambda>d. if doc_id d = i then d\<lparr>plaid2text := Some (mongo_patch now txn mark)\<rparr> else d)) d
         = (case map_of (rev (e # rest)) (doc_id d) of
                   None \<Rightarrow> d
                 | Some txn \<Rightarrow> d\<lparr>plaid2text := Some (mongo_patch now txn mark)\<rparr>)"
      by (cases "doc_id d = i"; cases "map_of (rev rest) (doc_id d)")
        (simp_all add: e map_add_def)
  qed
  finally show ?case .
qed

lemma map_of_mongo_patch:
  "map_of (mongo_patch now txn mark) k =
     (if k = ''date_last_pulled'' \<and> mark = Some True then Some (MTime now)
      else if k = ''pulled_to_file'' then Some (mark_value mark)
      else map_of txn k)"
  by (simp add: mongo_patch_def Let_def update_conv')

lemma AList_update_nonempty: "AList.update k v al \<noteq> []"
  by (cases al) auto

lemma mongo_patch_nonempty: "mongo_patch now txn mark \<noteq> []"
  by (simp add: mongo_patch_def Let_def AList_update_nonempty)

text \<open>
  C5, counterexample. A document saved with the default metadata is patched with a payee
  and \<^verbatim>\<open>mark_pulled=True\<close>: its metadata becomes the patch, and the fields the
  patch does not name (tags, the accounts, \<^verbatim>\<open>date_downloaded\<close>) are gone.
\<close>

theorem mongo_update_drops_unnamed_fields_counterexample:
  "map plaid2text mongo_T2_T1 =
     [Some [(''tags'', MList []), (''payee'', MStr ''''), (''posting_account'', MStr ''''),
            (''associated_account'', MStr ''''), (''date_downloaded'', MTime 5),
            (''date_last_pulled'', MStr ''''), (''pulled_to_file'', MBool False)],
      Some [(''tags'', MList []), (''payee'', MStr ''''), (''posting_account'', MStr ''''),
            (''associated_account'', MStr ''''), (''date_downloaded'', MTime 5),
            (''date_last_pulled'', MStr ''''), (''pulled_to_file'', MBool False)]]
   \<and> map plaid2text
        (mongo_update_transaction 77 mongo_T2_T1 [(''T1'', [(''payee'', MStr ''Cafe'')])] (Some True)) =
     [Some [(''tags'', MList []), (''payee'', MStr ''''), (''posting_account'', MStr ''''),
            (''associated_account'', MStr ''''), (''date_downloaded'', MTime 5),
            (''date_last_pulled'', MStr ''''), (''pulled_to_file'', MBool False)],
      Some [(''payee'', MStr ''Cafe''), (''pulled_to_file'', MBool True),
            (''date_last_pulled'', MTime 77)]]"
  by (simp add: mongo_T2_T1_docs TEXT_DOC_def mongo_patch_def mark_value_def)

text \<open>
  C5, as amended. On the document-store backend \<^verbatim>\<open>update_transaction\<close> replaces the
  metadata sub-document of each targeted transaction by the given patch (the last one for
  that id) with \<^verbatim>\<open>pulled_to_file\<close> set to \<^verbatim>\<open>mark_pulled\<close> and, when that is
  true, \<^verbatim>\<open>date_last_pulled\<close> set to the current time; every other document, and every
  other field of a targeted one, is unchanged. A key of the new metadata holds what the
  patch holds for it: a field the patch does not name is absent.
\<close>

theorem mongo_update_transaction_replaces_metadata:
  "distinct (map doc_id s) \<Longrightarrow>
     mongo_update_transaction now s upd mark =
       map (\<lambda>d. case map_of (rev upd) (doc_id d) of
                   None \<Rightarrow> d
                 | Some txn \<Rightarrow> d\<lparr>plaid2text := Some (mongo_patch now txn mark)\<rparr>) s
     \<and> map_of (mongo_patch now txn mark) k =
         (if k = ''date_last_pulled'' \<and> mark = Some True then Some (MTime now)
          else if k = ''pulled_to_file'' then Some (mark_value mark)
          else map_of txn k)"
  using mongo_update_transaction_map [of s now upd mark] map_of_mongo_patch [of now txn mark k]
  by simp

theorem mongo_update_transaction_replaces_metadata_witness:
  "distinct (map doc_id mongo_T2_T1)
   \<and> mongo_update_transaction 77 mongo_T2_T1 [(''T1'', [(''payee'', MStr ''Cafe'')])] (Some True) =
       map (\<lambda>d. case map_of (rev [(''T1'', [(''payee'', MStr ''Cafe'')])]) (doc_id d) of
                   None \<Rightarrow> d
                 | Some txn \<Rightarrow> d\<lparr>plaid2text := Some (mongo_patch 77 txn (Some True))\<rparr>) mongo_T2_T1
   \<and> map_of (mongo_patch 77 [(''payee'', MStr ''Cafe'')] (Some True)) ''date_downloaded'' = None
   \<and> map_of (mongo_patch 77 [(''payee'', MStr ''Cafe'')] (Some True)) ''payee'' = Some (MStr ''Cafe'')"
proof -
  have d: "distinct (map doc_id mongo_T2_T1)"
    by (simp add: mongo_T2_T1_docs)
  from mongo_update_transaction_replaces_metadata
         [OF d, of 77 "[(''T1'', [(''payee'', MStr ''Cafe'')])]" "Some True"
            "[(''payee'', MStr ''Cafe'')]" "''date_downloaded''"]
       mongo_update_transaction_replaces_metadata
         [OF d, of 77 "[(''T1'', [(''payee'', MStr ''Cafe'')])]" "Some True"
            "[(''payee'', MStr ''Cafe'')]" "''payee''"]
       d
  show ?thesis by simp
qed

section \<open>Records without metadata\<close>

text \<open>
  The relational backend decodes a NULL or empty metadata column to None. The
  document-store backend returns documents as they are stored, and what
  \<^verbatim>\<open>save_transactions\<close> and \<^verbatim>\<open>update_transaction\<close> store always has a metadata
  sub-document that is not empty.
\<close>

lemma sqlite_decode_plaid2text:
  "plaid2text (sqlite_decode row) =
     (case col_metadata row of None \<Rightarrow> None | Some m \<Rightarrow> if m = [] then None else Some m)"
  by (simp add: sqlite_decode_def Let_def split: option.splits)

lemma mongo_get_subset: "set (mongo_get_transactions s fo to n) \<subseteq> set s"
  by (simp add: mongo_get_transactions_def)

lemma has_metadata_mongo_set: "has_metadata (mongo_set t d) = has_metadata d"
  by (simp add: has_metadata_def mongo_set_def)

lemma has_metadata_mongo_insert: "has_metadata (mongo_insert loaded t)"
  by (simp add: has_metadata_def mongo_insert_def TEXT_DOC_def)

lemma mongo_upsert_has_metadata:
  "list_all has_metadata s \<Longrightarrow> list_all has_metadata (mongo_upsert loaded t s)"
  by (auto simp: mongo_upsert_def list_all_iff has_metadata_mongo_set has_metadata_mongo_insert)

lemma mongo_save_has_metadata:
  "list_all has_metadata s \<Longrightarrow> list_all has_metadata (snd (mongo_save_transactions loaded s ts))"
  by (induction ts arbitrary: s) (simp_all add: mongo_upsert_has_metadata)

lemma mongo_update_one_has_metadata:
  "m \<noteq> [] \<Longrightarrow> list_all has_metadata s \<Longrightarrow> list_all has_metadata (mongo_update_one i m s)"
  by (induction s) (simp_all add: has_metadata_def)

lemma mongo_update_has_metadata:
  "list_all has_metadata s \<Longrightarrow> list_all has_metadata (mongo_update_transaction now s upd mark)"
proof (induction upd arbitrary: s)
  case Nil
  then show ?case by simp
next
  case (Cons e rest)
  obtain i txn where e: "e = (i, txn)" by (cases e)
  show ?case
    unfolding e mongo_update_transaction.simps
    by (rule Cons.IH) (rule mongo_update_one_has_metadata [OF mongo_patch_nonempty Cons.prems])
qed

lemma sqlite_get_db_T1:
  "sqlite_get_transactions sqlite_db_T1 None None True = Inr (map sqlite_decode sqlite_db_T1)"
  by (simp add: sqlite_get_unfold sqlite_select_def sqlite_db_T1_rows sqlite_where_def
      sqlite_new_condition_def json_extract_pulled_to_file_def sqlite_date_condition_def)

lemma mongo_run_has_metadata:
  "list_all has_metadata s \<Longrightarrow> list_all has_metadata (mongo_run s calls)"
proof (induction calls arbitrary: s)
  case Nil
  then show ?case by simp
next
  case (Cons c calls)
  show ?case
  proof (cases c)
    case (Save loaded ts)
    with Cons show ?thesis
      by (simp add: mongo_save_has_metadata)
  next
    case (Update now upd mark)
    with Cons show ?thesis
      by (simp add: mongo_update_has_metadata)
  qed
qed

lemma mongo_run_save_T2_T1: "mongo_run [] [Save 5 [txn_T2, txn_T1]] = mongo_T2_T1"
  by (simp add: mongo_T2_T1_def)

text \<open>
  C8. On the relational backend every returned record is the decoding of a selected row
  and never carries an empty mapping: a row whose metadata is NULL or decodes to an empty
  mapping is reported with metadata null. On the document-store backend the records
  returned are stored documents, unchanged, so an absent sub-document is reported absent;
  and in a collection written by \<^verbatim>\<open>save_transactions\<close> and
  \<^verbatim>\<open>update_transaction\<close> no document has an empty sub-document, so no returned record
  carries an empty mapping.
\<close>

theorem empty_metadata_is_reported_null:
  "(sqlite_get_transactions db from_date to_date only_new = Inr ret \<longrightarrow>
      ret = map sqlite_decode (sqlite_select db from_date to_date only_new)
      \<and> (\<forall>r\<in>set ret. plaid2text r \<noteq> Some []))
   \<and> (col_metadata row = None \<or> col_metadata row = Some [] \<longrightarrow>
        plaid2text (sqlite_decode row) = None)
   \<and> set (mongo_get_transactions s from_date to_date only_new) \<subseteq> set s
   \<and> (\<forall>d\<in>set (mongo_get_transactions (mongo_run [] calls) from_date to_date only_new).
        plaid2text d \<noteq> Some [] \<and> plaid2text d \<noteq> None)"
proof (intro conjI impI)
  assume "sqlite_get_transactions db from_date to_date only_new = Inr ret"
  then show r: "ret = map sqlite_decode (sqlite_select db from_date to_date only_new)"
    by (simp add: sqlite_get_unfold split: if_splits)
  show "\<forall>r\<in>set ret. plaid2text r \<noteq> Some []"
    unfolding r by (simp add: sqlite_decode_plaid2text split: option.splits)
next
  assume "col_metadata row = None \<or> col_metadata row = Some []"
  then show "plaid2text (sqlite_decode row) = None"
    by (auto simp: sqlite_decode_plaid2text)
next
  show "set (mongo_get_transactions s from_date to_date only_new) \<subseteq> set s"
    by (rule mongo_get_subset)
next
  have "list_all has_metadata (mongo_run [] calls)"
    by (rule mongo_run_has_metadata) simp
  then have "\<forall>d\<in>set (mongo_run [] calls). has_metadata d"
    by (simp add: list_all_iff)
  with mongo_get_subset [of "mongo_run [] calls" from_date to_date only_new]
  have "\<forall>d\<in>set (mongo_get_transactions (mongo_run [] calls) from_date to_date only_new).
          has_metadata d"
    by blast
  then show "\<forall>d\<in>set (mongo_get_transactions (mongo_run [] calls) from_date to_date only_new).
        plaid2text d \<noteq> Some [] \<and> plaid2text d \<noteq> None"
    by (auto simp: has_metadata_def split: option.splits)
qed

theorem empty_metadata_is_reported_null_witness:
  "sqlite_get_transactions sqlite_db_T1 None None True = Inr (map sqlite_decode sqlite_db_T1)
   \<and> col_metadata (hd sqlite_db_T1) = None
   \<and> plaid2text (sqlite_decode (hd sqlite_db_T1)) = None
   \<and> map doc_id (mongo_get_transactions (mongo_run [] [Save 5 [txn_T2, txn_T1]]) None None True)
       = [''T1'', ''T2'']
   \<and> list_all has_metadata
        (mongo_get_transactions (mongo_run [] [Save 5 [txn_T2, txn_T1]]) None None True)"
proof -
  have a: "col_metadata (hd sqlite_db_T1) = None"
    by (simp add: sqlite_db_T1_rows)
  have b: "map doc_id (mongo_get_transactions (mongo_run [] [Save 5 [txn_T2, txn_T1]]) None None True)
       = [''T1'', ''T2'']"
    unfolding mongo_run_save_T2_T1
    by (simp add: mongo_T2_T1_docs mongo_get_transactions_def mongo_date_query_def combine_le
        pulled_ne_True_def TEXT_DOC_def)
  from empty_metadata_is_reported_null
         [of sqlite_db_T1 None None True "map sqlite_decode sqlite_db_T1" "hd sqlite_db_T1"
            "[]" "[Save 5 [txn_T2, txn_T1]]"]
  have c: "plaid2text (sqlite_decode (hd sqlite_db_T1)) = None"
    and d: "\<forall>d\<in>set (mongo_get_transactions (mongo_run [] [Save 5 [txn_T2, txn_T1]]) None None True).
        plaid2text d \<noteq> Some [] \<and> plaid2text d \<noteq> None"
    using a by blast+
  from d have "list_all has_metadata
        (mongo_get_transactions (mongo_run [] [Save 5 [txn_T2, txn_T1]]) None None True)"
    by (auto simp: list_all_iff has_metadata_def split: option.splits)
  with a b c sqlite_get_db_T1 show ?thesis by blast
qed

section \<open>Saving a transaction again\<close>

text \<open>
  On the document-store backend the second save of a settled transaction finds its
  document and sets the transaction's fields only: the metadata of every document is what
  it was after the first save.
\<close>

lemma mongo_upsert_existing:
  "list_ex (\<lambda>d. doc_id d = transaction_id t) s \<Longrightarrow>
     map doc_id (mongo_upsert loaded t s) = map doc_id s \<and>
     map plaid2text (mongo_upsert loaded t s) = map plaid2text s"
  by (simp add: mongo_upsert_def mongo_set_def if_distrib [of doc_id] if_distrib [of plaid2text])

lemma mongo_upsert_has_id:
  "list_ex (\<lambda>d. doc_id d = transaction_id t) (mongo_upsert loaded t s)"
proof (cases "list_ex (\<lambda>d. doc_id d = transaction_id t) s")
  case True
  then obtain d where d: "d \<in> set s" "doc_id d = transaction_id t"
    by (auto simp: list_ex_iff)
  from d(1) have "doc_id d \<in> doc_id ` set s" by (rule imageI)
  with d(2) have "transaction_id t \<in> set (map doc_id s)" by simp
  with mongo_upsert_existing [OF True, of loaded]
  have "transaction_id t \<in> set (map doc_id (mongo_upsert loaded t s))" by simp
  then show ?thesis by (auto simp: list_ex_iff)
next
  case False
  then show ?thesis by (simp add: mongo_upsert_def mongo_insert_def)
qed

lemma mongo_upsert_existing_metadata:
  "list_ex (\<lambda>d. doc_id d = transaction_id t) s \<Longrightarrow>
     map plaid2text (mongo_upsert loaded t s) = map plaid2text s"
  by (simp add: mongo_upsert_existing)

lemma mongo_resave_keeps_metadata:
  assumes "\<not> pending t1" "\<not> pending t2" "plaid2text t1 = None" "plaid2text t2 = None"
    and "transaction_id t2 = transaction_id t1"
  shows "map plaid2text
           (snd (mongo_save_transactions loaded (snd (mongo_save_transactions loaded s [t1])) [t2]))
         = map plaid2text (snd (mongo_save_transactions loaded s [t1]))"
proof -
  have "list_ex (\<lambda>d. doc_id d = transaction_id t2) (mongo_upsert loaded t1 s)"
    using mongo_upsert_has_id [of t1 loaded s] assms(5) by simp
  then show ?thesis
    using assms by (simp add: mongo_upsert_existing_metadata)
qed

text \<open>
  C1. On the relational backend the conflict clause assigns
  \<^verbatim>\<open>metadata = excluded.metadata\<close>: every save writes the metadata column. T1 is saved
  carrying a metadata dictionary and then saved again as downloaded: the metadata stored by
  the first save is replaced by NULL.
\<close>

theorem sqlite_resave_overwrites_metadata:
  "sqlite_save_transactions 5 [] [txn_T1_tagged] =
     (None, [\<lparr>col_account_id = ''A1'', col_transaction_id = ''T1'', col_created = 5, col_updated = 5,
       col_plaid_json =
         \<lparr>account_id = ''A1'', amount = 1250, iso_currency_code = Some ''USD'',
          category = None, category_id = None, date = (2024, 1, 5), name = ''Coffee'',
          pending = False, pending_transaction_id = None, account_owner = None,
          transaction_id = ''T1'', authorized_date = (2024, 1, 5), datetime = None,
          payment_channel = ''in store''\<rparr>,
       col_metadata = Some [(''payee'', MStr ''Cafe'')]\<rparr>])
   \<and> sqlite_save_transactions 9 (snd (sqlite_save_transactions 5 [] [txn_T1_tagged])) [txn_T1_again] =
     (None, [\<lparr>col_account_id = ''A1'', col_transaction_id = ''T1'', col_created = 5, col_updated = 9,
       col_plaid_json =
         \<lparr>account_id = ''A1'', amount = 1300, iso_currency_code = Some ''USD'',
          category = None, category_id = None, date = (2024, 1, 5), name = ''Coffee'',
          pending = False, pending_transaction_id = None, account_owner = None,
          transaction_id = ''T1'', authorized_date = (2024, 1, 5), datetime = None,
          payment_channel = ''in store''\<rparr>,
       col_metadata = None\<rparr>])"
  by (simp add: txn_T1_tagged_def txn_T1_again_def txn_T1_def serialize_transaction_def
      sqlite_upsert_def json_dumps_def)

section \<open>Pending transactions\<close>

text \<open>
  The document-store backend skips a pending transaction: a collection without pending
  documents stays so, and so does every result read from it.
\<close>

lemma mongo_upsert_no_pending:
  "\<not> pending t \<Longrightarrow> list_all (\<lambda>d. \<not> pending d) s \<Longrightarrow>
     list_all (\<lambda>d. \<not> pending d) (mongo_upsert loaded t s)"
  by (auto simp: mongo_upsert_def list_all_iff mongo_set_def mongo_insert_def)

lemma mongo_save_no_pending:
  "list_all (\<lambda>d. \<not> pending d) s \<Longrightarrow>
     list_all (\<lambda>d. \<not> pending d) (snd (mongo_save_transactions loaded s ts))"
  by (induction ts arbitrary: s) (simp_all add: mongo_upsert_no_pending)

lemma mongo_get_no_pending:
  "list_all (\<lambda>d. \<not> pending d) s \<Longrightarrow>
     list_all (\<lambda>d. \<not> pending d) (mongo_get_transactions s fo to n)"
  using mongo_get_subset [of s fo to n] by (auto simp: list_all_iff)

lemma mongo_save_skips_pending:
  "mongo_save_transactions loaded s [txn_T1_pending] = (None, s)"
  by (simp add: txn_T1_pending_def txn_T1_def)

text \<open>
  C3. \<^verbatim>\<open>SQLiteStorage.save_transactions\<close> has no test of \<^verbatim>\<open>pending\<close>: a pending
  transaction is written like any other, and \<^verbatim>\<open>get_transactions\<close> returns it.
\<close>

theorem sqlite_saves_pending_transaction:
  "sqlite_save_transactions 5 [] [txn_T1_pending] =
     (None, [\<lparr>col_account_id = ''A1'', col_transaction_id = ''T1'', col_created = 5, col_updated = 5,
       col_plaid_json =
         \<lparr>account_id = ''A1'', amount = 1250, iso_currency_code = Some ''USD'',
          category = None, category_id = None, date = (2024, 1, 5), name = ''Coffee'',
          pending = True, pending_transaction_id = None, account_owner = None,
          transaction_id = ''T1'', authorized_date = (2024, 1, 5), datetime = None,
          payment_channel = ''in store''\<rparr>,
       col_metadata = None\<rparr>])
   \<and> sqlite_get_transactions (snd (sqlite_save_transactions 5 [] [txn_T1_pending])) None None True =
     Inr [\<lparr>account_id = ''A1'', amount = 1250, iso_currency_code = Some ''USD'',
          category = None, category_id = None, date = combine (2024, 1, 5), name = ''Coffee'',
          pending = True, pending_transaction_id = None, account_owner = None,
          transaction_id = ''T1'', authorized_date = (2024, 1, 5), datetime = None,
          payment_channel = ''in store'', plaid2text = None\<rparr>]"
  by (simp add: txn_T1_pending_def txn_T1_def serialize_transaction_def sqlite_upsert_def
      sqlite_get_unfold sqlite_select_def sqlite_where_def sqlite_new_condition_def
      json_extract_pulled_to_file_def sqlite_date_condition_def sqlite_decode_def)

section \<open>Marking transactions as pulled\<close>

text \<open>
  On the document-store backend, after an update with \<^verbatim>\<open>mark_pulled=True\<close> that has
  an entry for a stored id, no result with \<^verbatim>\<open>only_new=True\<close> holds that id, and the
  unfiltered result with \<^verbatim>\<open>only_new=False\<close> holds it with
  \<^verbatim>\<open>pulled_to_file\<close> true.
\<close>

lemma mongo_mark_pulled:
  assumes dist: "distinct (map doc_id s)" and upd: "(i, txn) \<in> set upd"
    and d: "d \<in> set s" "doc_id d = i"
  shows "\<forall>x\<in>set (mongo_get_transactions (mongo_update_transaction now s upd (Some True)) fo to True).
           doc_id x \<noteq> i"
    and "\<exists>x\<in>set (mongo_get_transactions (mongo_update_transaction now s upd (Some True)) None None False).
           doc_id x = i \<and> (\<exists>m. plaid2text x = Some m \<and> map_of m ''pulled_to_file'' = Some (MBool True))"
proof -
  let ?F = "\<lambda>d. case map_of (rev upd) (doc_id d) of
                   None \<Rightarrow> d
                 | Some txn \<Rightarrow> d\<lparr>plaid2text := Some (mongo_patch now txn (Some True))\<rparr>"
  have s': "mongo_update_transaction now s upd (Some True) = map ?F s"
    by (rule mongo_update_transaction_map [OF dist])
  from upd have "i \<in> fst ` set (rev upd)" by force
  then obtain txn' where l: "map_of (rev upd) i = Some txn'"
    by (metis map_of_eq_None_iff not_Some_eq)
  have F: "\<And>y. doc_id y = i \<Longrightarrow> ?F y = y\<lparr>plaid2text := Some (mongo_patch now txn' (Some True))\<rparr>"
    by (simp add: l)
  have id: "\<And>y. doc_id (?F y) = doc_id y"
    by (simp split: option.splits)
  have np: "\<And>y. doc_id y = i \<Longrightarrow> \<not> pulled_ne_True (?F y)"
    by (simp add: l pulled_ne_True_def map_of_mongo_patch mark_value_def)
  show "\<forall>x\<in>set (mongo_get_transactions (mongo_update_transaction now s upd (Some True)) fo to True).
           doc_id x \<noteq> i"
  proof
    fix x
    assume "x \<in> set (mongo_get_transactions (mongo_update_transaction now s upd (Some True)) fo to True)"
    then have "x \<in> set (map ?F s)" and p: "pulled_ne_True x"
      by (simp_all add: mongo_get_transactions_def s')
    then obtain y where "y \<in> set s" and x: "x = ?F y" by auto
    show "doc_id x \<noteq> i"
    proof
      assume "doc_id x = i"
      then have "doc_id y = i" using id [of y] x by simp
      from np [OF this] p x show False by simp
    qed
  qed
  have "?F d \<in> set (mongo_get_transactions (mongo_update_transaction now s upd (Some True)) None None False)"
    using d(1) by (simp add: mongo_get_transactions_def s' mongo_date_query_def)
  moreover have "doc_id (?F d) = i" using id [of d] d(2) by simp
  moreover have "\<exists>m. plaid2text (?F d) = Some m \<and> map_of m ''pulled_to_file'' = Some (MBool True)"
    by (simp add: F [OF d(2)] map_of_mongo_patch mark_value_def)
  ultimately show "\<exists>x\<in>set (mongo_get_transactions (mongo_update_transaction now s upd (Some True)) None None False).
           doc_id x = i \<and> (\<exists>m. plaid2text x = Some m \<and> map_of m ''pulled_to_file'' = Some (MBool True))"
    by blast
qed

text \<open>
  C2. On the relational backend \<^verbatim>\<open>update_transaction\<close> raises NameError at its first
  entry and writes nothing, so the transaction is still returned with
  \<^verbatim>\<open>only_new=True\<close>, its metadata still null.
\<close>

theorem sqlite_mark_pulled_raises_and_keeps_new:
  "sqlite_update_transaction 77 sqlite_db_T1 [(''T1'', [])] (Some True) = (Some NameError, sqlite_db_T1)
   \<and> sqlite_get_transactions
        (snd (sqlite_update_transaction 77 sqlite_db_T1 [(''T1'', [])] (Some True))) None None True =
     Inr [\<lparr>account_id = ''A1'', amount = 1250, iso_currency_code = Some ''USD'',
          category = None, category_id = None, date = combine (2024, 1, 5), name = ''Coffee'',
          pending = False, pending_transaction_id = None, account_owner = None,
          transaction_id = ''T1'', authorized_date = (2024, 1, 5), datetime = None,
          payment_channel = ''in store'', plaid2text = None\<rparr>]"
  by (simp add: sqlite_db_T1_rows
      sqlite_get_unfold sqlite_select_def sqlite_where_def sqlite_new_condition_def
      json_extract_pulled_to_file_def sqlite_date_condition_def sqlite_decode_def)

end
